theory Spec2Isabelle
  imports Complex_Main
begin

section \<open>Moderation setting modal: data model\<close>

text \<open>
  JavaScript strings are modelled as \<^typ>\<open>string\<close>, one list element per code unit;
  \<open>s.slice(0, n)\<close> is \<^const>\<open>take\<close>, \<open>s.length\<close> is \<^const>\<open>length\<close> and \<open>s === ''\<close>
  is \<open>s = []\<close>. Nothing below depends on which code units exist apart from the newline.
\<close>

definition newline :: char where
  "newline = CHR 0x0A"

text \<open>
  \<open>ModerationContentConfig\<close> is the object edited for one direction
  (\<open>{ enabled: boolean, preset_response?: string }\<close>).
\<close>

record ModerationContentConfig =
  enabled :: bool
  preset_response :: "string option"

text \<open>
  The values that occur under the keys of \<open>configs\<close>: \<open>undefined\<close>, a string
  (\<open>keywords\<close>, \<open>api_based_extension_id\<close>, the fields of a code-based extension), a
  content config (\<open>inputs_configs\<close>, \<open>outputs_configs\<close>), or \<open>Inherited k\<close>, the member
  that \<open>Object.prototype\<close> holds under the name \<open>k\<close> (a function; under \<open>__proto__\<close> the
  prototype object itself), which a read of a key that the object does not own may
  return. The handlers write any of them under any key (\<open>[contentType]: contentConfig\<close>,
  \<open>...extraValue\<close>), so the bag is one map from keys to values and not a record with fixed
  fields.
\<close>

datatype js_value = Undefined | Str string | Content ModerationContentConfig | Inherited string

text \<open>
  A plain object is the map of its own properties; its prototype is \<open>Object.prototype\<close>.
  Object literals, spreads and computed keys (\<open>{ ...a, [k]: v }\<close>) define own properties.
\<close>

type_synonym js_object = "string \<rightharpoonup> js_value"

text \<open>The property names of \<open>Object.prototype\<close> (ECMAScript, with its Annex B).\<close>

definition object_prototype :: "string list" where
  "object_prototype =
     [''constructor'', ''__defineGetter__'', ''__defineSetter__'', ''hasOwnProperty'',
      ''__lookupGetter__'', ''__lookupSetter__'', ''isPrototypeOf'', ''propertyIsEnumerable'',
      ''toString'', ''valueOf'', ''__proto__'', ''toLocaleString'']"

text \<open>
  The read \<open>c[k]\<close> on a plain object: the own property when there is one (also when its
  value is \<open>undefined\<close>), else the member of \<open>Object.prototype\<close>, else \<open>undefined\<close>.
\<close>

definition js_get :: "js_object \<Rightarrow> string \<Rightarrow> js_value" where
  "js_get c k =
     (case c k of
        Some v \<Rightarrow> v
      | None \<Rightarrow> (if k \<in> set object_prototype then Inherited k else Undefined))"

text \<open>
  The assignment \<open>c[k] = v\<close> on a plain object: it creates or overwrites the own
  property \<open>k\<close>, except for \<open>__proto__\<close> on an object that does not own that key, where
  the setter of \<open>Object.prototype\<close> runs (it changes at most the prototype, which no spread
  copies) and no own property arises.
\<close>

definition js_set :: "js_object \<Rightarrow> string \<Rightarrow> js_value \<Rightarrow> js_object" where
  "js_set c k v = (if k = ''__proto__'' \<and> c k = None then c else c(k \<mapsto> v))"

text \<open>
  Modelled from the spec: the declaration of \<open>ModerationConfig\<close> (\<open>@/models/debug\<close>) is
  not part of the sources. The spec gives \<open>enabled\<close> (boolean), \<open>type\<close> (string) and the
  optional \<open>configs\<close> bag. Any further top-level field of a working copy lives in the
  record's extension, which \<open>...localeData\<close> carries along.
\<close>

record ModerationConfig =
  enabled :: bool
  type :: string
  configs :: "js_object option"

datatype js_error = TypeError

text \<open>
  Truthiness of a value, as used by \<open>!v\<close> and \<open>v || d\<close>: an object or a function is
  always truthy.
\<close>

fun truthy :: "js_value \<Rightarrow> bool" where
  "truthy Undefined = False"
| "truthy (Str s) = (s \<noteq> [])"
| "truthy (Content c) = True"
| "truthy (Inherited k) = True"

text \<open>\<open>obj?.[k]\<close> and \<open>obj?.k\<close> on the optional bag: a missing bag reads \<open>undefined\<close>.\<close>

definition opt_member :: "js_object option \<Rightarrow> string \<Rightarrow> js_value" where
  "opt_member obj k = (case obj of None \<Rightarrow> Undefined | Some c \<Rightarrow> js_get c k)"

text \<open>\<open>obj.k\<close> without optional chaining: reading a property of \<open>undefined\<close> throws.\<close>

definition member :: "js_object option \<Rightarrow> string \<Rightarrow> js_error + js_value" where
  "member obj k = (case obj of None \<Rightarrow> Inl TypeError | Some c \<Rightarrow> Inr (js_get c k))"

text \<open>
  \<open>v?.enabled\<close> as a condition: \<open>undefined\<close> short-circuits, a string and a member of
  \<open>Object.prototype\<close> have no such property, a content config yields its flag.
\<close>

fun opt_enabled :: "js_value \<Rightarrow> bool" where
  "opt_enabled Undefined = False"
| "opt_enabled (Str s) = False"
| "opt_enabled (Content c) = ModerationContentConfig.enabled c"
| "opt_enabled (Inherited k) = False"

text \<open>
  \<open>!v.preset_response\<close> without optional chaining: throws on \<open>undefined\<close>; a missing
  or empty preset is falsy.
\<close>

fun preset_response_empty :: "js_value \<Rightarrow> js_error + bool" where
  "preset_response_empty Undefined = Inl TypeError"
| "preset_response_empty (Str s) = Inr True"
| "preset_response_empty (Content c) =
     Inr (case preset_response c of None \<Rightarrow> True | Some s \<Rightarrow> s = [])"
| "preset_response_empty (Inherited k) = Inr True"

text \<open>\<open>{ ...obj }\<close> on the optional bag: spreading \<open>undefined\<close> adds nothing.\<close>

definition spread :: "js_object option \<Rightarrow> js_object" where
  "spread obj = (case obj of None \<Rightarrow> Map.empty | Some c \<Rightarrow> c)"

section \<open>State mutation handlers\<close>

definition handleDataTypeChange ::
  "'a ModerationConfig_scheme \<Rightarrow> string \<Rightarrow> 'a ModerationConfig_scheme" where
  "handleDataTypeChange localeData t = localeData\<lparr>type := t, configs := None\<rparr>"

text \<open>\<open>value.split('\n')\<close>: always at least one piece.\<close>

fun js_split :: "char \<Rightarrow> string \<Rightarrow> string list" where
  "js_split sep [] = [[]]"
| "js_split sep (c # cs) =
     (if c = sep then [] # js_split sep cs
      else (case js_split sep cs of [] \<Rightarrow> [[c]] | l # ls \<Rightarrow> (c # l) # ls))"

text \<open>\<open>arr.join('\n')\<close>.\<close>

fun js_join :: "char \<Rightarrow> string list \<Rightarrow> string" where
  "js_join sep [] = []"
| "js_join sep [x] = x"
| "js_join sep (x # y # ys) = x @ sep # js_join sep (y # ys)"

text \<open>\<open>prev[prev.length - 1]\<close>: \<open>undefined\<close> (here \<open>None\<close>) on the empty array.\<close>

definition last_elem :: "'a list \<Rightarrow> 'a option" where
  "last_elem xs = (if xs = [] then None else Some (last xs))"

text \<open>The body of the reducer: the two \<open>if\<close>s run one after the other on \<open>prev\<close>.\<close>

definition keywords_step :: "string list \<Rightarrow> string \<Rightarrow> string list" where
  "keywords_step prev next =
     (let prev1 = (if next \<noteq> [] then prev @ [take 100 next] else prev);
          prev2 = (if next = [] \<and> last_elem prev1 \<noteq> Some [] then prev1 @ [next] else prev1)
      in prev2)"

definition keywords_arr :: "string \<Rightarrow> string list" where
  "keywords_arr v = foldl keywords_step [] (js_split newline v)"

definition handleDataKeywordsChange ::
  "'a ModerationConfig_scheme \<Rightarrow> string \<Rightarrow> 'a ModerationConfig_scheme" where
  "handleDataKeywordsChange localeData v =
     localeData\<lparr>configs :=
       Some ((spread (configs localeData))
               (''keywords'' \<mapsto> Str (js_join newline (take 100 (keywords_arr v)))))\<rparr>"

definition handleDataContentChange ::
  "'a ModerationConfig_scheme \<Rightarrow> string \<Rightarrow> ModerationContentConfig \<Rightarrow>
     'a ModerationConfig_scheme" where
  "handleDataContentChange localeData contentType contentConfig =
     localeData\<lparr>configs :=
       Some ((spread (configs localeData))(contentType \<mapsto> Content contentConfig))\<rparr>"

definition handleDataApiBasedChange ::
  "'a ModerationConfig_scheme \<Rightarrow> string \<Rightarrow> 'a ModerationConfig_scheme" where
  "handleDataApiBasedChange localeData apiBasedExtensionId =
     localeData\<lparr>configs :=
       Some ((spread (configs localeData))
               (''api_based_extension_id'' \<mapsto> Str apiBasedExtensionId))\<rparr>"

definition handleDataExtraChange ::
  "'a ModerationConfig_scheme \<Rightarrow> (string \<rightharpoonup> string) \<Rightarrow> 'a ModerationConfig_scheme" where
  "handleDataExtraChange localeData extraValue =
     localeData\<lparr>configs :=
       Some (spread (configs localeData) ++ (\<lambda>k. map_option Str (extraValue k)))\<rparr>"

text \<open>
  The line counter under the text area:
  \<open>(localeData.configs?.keywords || '').split('\n').filter(Boolean).length\<close>.
  A content config or a function stored under \<open>keywords\<close> has no \<open>split\<close> method.
\<close>

definition keywords_line_count :: "'a ModerationConfig_scheme \<Rightarrow> js_error + nat" where
  "keywords_line_count localeData =
     (case opt_member (configs localeData) ''keywords'' of
        Undefined \<Rightarrow> Inr (length (filter (\<lambda>l. l \<noteq> []) (js_split newline [])))
      | Str s \<Rightarrow> Inr (length (filter (\<lambda>l. l \<noteq> []) (js_split newline s)))
      | Content c \<Rightarrow> Inl TypeError
      | Inherited k \<Rightarrow> Inl TypeError)"

section \<open>Providers\<close>

definition systemTypes :: "string list" where
  "systemTypes = [''openai_moderation'', ''keywords'', ''api'']"

text \<open>
  Modelled from the spec: the declarations of \<open>CodeBasedExtensionItem\<close> and of its form
  fields (\<open>@/models/common\<close>) are not part of the sources. The spec gives a field
  descriptor as \<open>{ variable, label }\<close> and a catalog record as
  \<open>{ name, label: {locale: string}, form_schema }\<close>; the code reads the labels
  \<open>'en-US'\<close> and \<open>'zh-Hans'\<close>.
\<close>

record I18nText =
  en_US :: string
  zh_Hans :: string

record CodeBasedExtensionForm =
  variable :: string
  label :: I18nText

record CodeBasedExtensionItem =
  name :: string
  label :: I18nText
  form_schema :: "CodeBasedExtensionForm list option"

record Provider =
  key :: string
  name :: string
  form_schema :: "CodeBasedExtensionForm list option"

text \<open>
  The translation function \<open>t\<close> of the i18n hook is a parameter: \<open>t k None\<close> is
  \<open>t(k)\<close> and \<open>t k (Some v)\<close> is \<open>t(k, { key: v })\<close>.
\<close>

type_synonym translate = "string \<Rightarrow> string option \<Rightarrow> string"

text \<open>
  \<open>codeBasedExtensionList\<close> is \<open>undefined\<close> (\<open>None\<close>) until the catalog request has
  answered, and then holds the \<open>data\<close> array.
\<close>

definition providers ::
  "translate \<Rightarrow> string \<Rightarrow> CodeBasedExtensionItem list option \<Rightarrow> Provider list" where
  "providers t locale codeBasedExtensionList =
     [\<lparr>key = ''openai_moderation'',
       name = t ''appDebug.feature.moderation.modal.provider.openai'' None,
       form_schema = None\<rparr>,
      \<lparr>key = ''keywords'',
       name = t ''appDebug.feature.moderation.modal.provider.keywords'' None,
       form_schema = None\<rparr>,
      \<lparr>key = ''api'',
       name = t ''common.apiBasedExtension.selector.title'' None,
       form_schema = None\<rparr>]
     @ (case codeBasedExtensionList of
          Some data \<Rightarrow>
            map (\<lambda>item.
                  \<lparr>key = CodeBasedExtensionItem.name item,
                   name = (if locale = ''zh-Hans''
                           then zh_Hans (CodeBasedExtensionItem.label item)
                           else en_US (CodeBasedExtensionItem.label item)),
                   form_schema = CodeBasedExtensionItem.form_schema item\<rparr>) data
        | None \<Rightarrow> [])"

text \<open>\<open>providers.find(provider => provider.key === localeData.type)\<close>.\<close>

definition currentProvider ::
  "translate \<Rightarrow> string \<Rightarrow> CodeBasedExtensionItem list option \<Rightarrow>
     'a ModerationConfig_scheme \<Rightarrow> Provider option" where
  "currentProvider t locale codeBasedExtensionList localeData =
     find (\<lambda>provider. key provider = type localeData)
       (providers t locale codeBasedExtensionList)"

text \<open>\<open>Array.prototype.findIndex\<close>: the first index satisfying the test, or \<open>-1\<close>.\<close>

fun findIndex :: "('a \<Rightarrow> bool) \<Rightarrow> 'a list \<Rightarrow> int" where
  "findIndex P [] = - 1"
| "findIndex P (x # xs) =
     (if P x then 0 else (let r = findIndex P xs in if r < 0 then - 1 else r + 1))"

section \<open>Normalisation on save\<close>

text \<open>\<open>v || { enabled: false }\<close>.\<close>

definition or_disabled :: "js_value \<Rightarrow> js_value" where
  "or_disabled v =
     (if truthy v then v
      else Content \<lparr>ModerationContentConfig.enabled = False, preset_response = None\<rparr>)"

text \<open>
  \<open>formatData\<close> reads \<open>currentProvider\<close> from the enclosing component; here it is the
  first argument. Destructuring \<open>configs!\<close> throws when \<open>configs\<close> is \<open>undefined\<close>.
  An assignment \<open>params[k] = undefined\<close> still creates the key \<open>k\<close>; the assignments
  to \<open>params\<close> are \<^const>\<open>js_set\<close>, the final spread copies the own keys of \<open>params\<close>.
\<close>

definition formatData ::
  "Provider option \<Rightarrow> 'a ModerationConfig_scheme \<Rightarrow> js_error + ModerationConfig" where
  "formatData cp originData =
     (case configs originData of
        None \<Rightarrow> Inl TypeError
      | Some c \<Rightarrow>
          (let inputs_configs = opt_member (Some c) ''inputs_configs'';
               outputs_configs = opt_member (Some c) ''outputs_configs'';
               params0 = Map.empty;
               params1 = (if type originData = ''keywords''
                          then js_set params0 ''keywords'' (opt_member (Some c) ''keywords'')
                          else params0);
               params2 = (if type originData = ''api''
                          then js_set params1 ''api_based_extension_id''
                                 (opt_member (Some c) ''api_based_extension_id'')
                          else params1);
               params3 =
                 (if findIndex (\<lambda>t. t = type originData) systemTypes < 0
                  then (case cp of
                          None \<Rightarrow> params2
                        | Some p \<Rightarrow>
                            (case Provider.form_schema p of
                               None \<Rightarrow> params2
                             | Some fs \<Rightarrow>
                                 foldl (\<lambda>params form.
                                          js_set params (variable form)
                                            (opt_member (Some c) (variable form)))
                                   params2 fs))
                  else params2)
           in Inr \<lparr>enabled = enabled originData,
                   type = type originData,
                   configs = Some ([''inputs_configs'' \<mapsto> or_disabled inputs_configs,
                                    ''outputs_configs'' \<mapsto> or_disabled outputs_configs]
                                   ++ params3)\<rparr>))"

section \<open>Validation and save\<close>

text \<open>What \<open>handleSave\<close> does to the outside: a toast, or the save callback.\<close>

datatype effect = Notify string string | OnSave ModerationConfig

text \<open>The two Chinese literals, by their UTF-8 bytes; no statement looks inside them.\<close>

definition zh_keywords :: string where
  "zh_keywords = [CHR 0xE5, CHR 0x85, CHR 0xB3, CHR 0xE9, CHR 0x94, CHR 0xAE,
                  CHR 0xE8, CHR 0xAF, CHR 0x8D]"

definition zh_api_based_extension :: string where
  "zh_api_based_extension =
     [CHR 0xE5, CHR 0x9F, CHR 0xBA, CHR 0xE4, CHR 0xBA, CHR 0x8E, CHR 0x20, CHR 0x41,
      CHR 0x50, CHR 0x49, CHR 0x20, CHR 0xE7, CHR 0x9A, CHR 0x84, CHR 0xE6, CHR 0x89,
      CHR 0xA9, CHR 0xE5, CHR 0xB1, CHR 0x95]"

text \<open>Sequencing of computations that may throw.\<close>

definition bindE :: "js_error + 'a \<Rightarrow> ('a \<Rightarrow> js_error + 'b) \<Rightarrow> js_error + 'b" where
  "bindE m f = (case m of Inl e \<Rightarrow> Inl e | Inr v \<Rightarrow> f v)"

text \<open>
  The \<open>for\<close> loop over \<open>currentProvider.form_schema\<close>: it leaves at the first field whose
  value \<open>localeData.configs?.[variable]\<close> is falsy.
\<close>

fun first_missing :: "js_object option \<Rightarrow> CodeBasedExtensionForm list \<Rightarrow>
    CodeBasedExtensionForm option" where
  "first_missing cfg [] = None"
| "first_missing cfg (f # fs) =
     (if \<not> truthy (opt_member cfg (variable f)) then Some f else first_missing cfg fs)"

text \<open>
  \<open>handleSave\<close> returns the working copy as it leaves it together with the effects it
  caused, or the exception it throws. \<open>a && b\<close> evaluates \<open>b\<close> only when \<open>a\<close> holds.
\<close>

definition handleSave ::
  "translate \<Rightarrow> string \<Rightarrow> CodeBasedExtensionItem list option \<Rightarrow>
     'a ModerationConfig_scheme \<Rightarrow> js_error + ('a ModerationConfig_scheme \<times> effect list)" where
  "handleSave t locale codeBasedExtensionList localeData =
     (let cp = currentProvider t locale codeBasedExtensionList localeData in
      if \<not> opt_enabled (opt_member (configs localeData) ''inputs_configs'')
         \<and> \<not> opt_enabled (opt_member (configs localeData) ''outputs_configs'')
      then Inr (localeData,
             [Notify ''error'' (t ''appDebug.feature.moderation.modal.content.condition'' None)])
      else
      bindE (if type localeData = ''keywords''
             then bindE (member (configs localeData) ''keywords'') (\<lambda>v. Inr (\<not> truthy v))
             else Inr False)
        (\<lambda>no_keywords.
      if no_keywords
      then Inr (localeData,
             [Notify ''error'' (t ''appDebug.errorMessage.valueOfVarRequired''
                (Some (if locale = ''en'' then ''keywords'' else zh_keywords)))])
      else
      bindE (if type localeData = ''api''
             then bindE (member (configs localeData) ''api_based_extension_id'')
                    (\<lambda>v. Inr (\<not> truthy v))
             else Inr False)
        (\<lambda>no_extension.
      if no_extension
      then Inr (localeData,
             [Notify ''error'' (t ''appDebug.errorMessage.valueOfVarRequired''
                (Some (if locale = ''en'' then ''API-based Extension''
                       else zh_api_based_extension)))])
      else
      case (if findIndex (\<lambda>t. t = type localeData) systemTypes < 0
            then (case cp of
                    None \<Rightarrow> None
                  | Some p \<Rightarrow>
                      (case Provider.form_schema p of
                         None \<Rightarrow> None
                       | Some fs \<Rightarrow> first_missing (configs localeData) fs))
            else None) of
        Some f \<Rightarrow>
          Inr (localeData,
            [Notify ''error'' (t ''appDebug.errorMessage.valueOfVarRequired''
               (Some (if locale = ''en'' then en_US (CodeBasedExtensionForm.label f)
                      else zh_Hans (CodeBasedExtensionForm.label f))))])
      | None \<Rightarrow>
      bindE (bindE (member (configs localeData) ''inputs_configs'')
               (\<lambda>ic. if opt_enabled ic
                     then bindE (preset_response_empty ic)
                            (\<lambda>e. Inr (e \<and> type localeData \<noteq> ''api''))
                     else Inr False))
        (\<lambda>no_inputs_preset.
      if no_inputs_preset
      then Inr (localeData,
             [Notify ''error''
                (t ''appDebug.feature.moderation.modal.content.errorMessage'' None)])
      else
      bindE (bindE (member (configs localeData) ''outputs_configs'')
               (\<lambda>oc. if opt_enabled oc
                     then bindE (preset_response_empty oc)
                            (\<lambda>e. Inr (e \<and> type localeData \<noteq> ''api''))
                     else Inr False))
        (\<lambda>no_outputs_preset.
      if no_outputs_preset
      then Inr (localeData,
             [Notify ''error''
                (t ''appDebug.feature.moderation.modal.content.errorMessage'' None)])
      else
      bindE (formatData cp localeData) (\<lambda>out. Inr (localeData, [OnSave out])))))))"

section \<open>The validation rules, one by one\<close>

text \<open>
  The six rules of the validator, each stated on its own as a condition on the working
  copy, in the order in which the spec lists them. They are what \<open>handleSave\<close> is compared
  with; \<open>handleSave\<close> itself is the definition above. A value of \<open>configs\<close> is the read
  \<open>configs[key]\<close> (\<^const>\<open>opt_member\<close>).
\<close>

definition no_direction_enabled :: "'a ModerationConfig_scheme \<Rightarrow> bool" where
  "no_direction_enabled d =
     (\<not> opt_enabled (opt_member (configs d) ''inputs_configs'')
      \<and> \<not> opt_enabled (opt_member (configs d) ''outputs_configs''))"

definition keywords_missing :: "'a ModerationConfig_scheme \<Rightarrow> bool" where
  "keywords_missing d =
     (type d = ''keywords'' \<and> \<not> truthy (opt_member (configs d) ''keywords''))"

definition api_extension_missing :: "'a ModerationConfig_scheme \<Rightarrow> bool" where
  "api_extension_missing d =
     (type d = ''api'' \<and> \<not> truthy (opt_member (configs d) ''api_based_extension_id''))"

text \<open>The form schema in force: that of the current provider, for a type that is not a system type.\<close>

definition dynamic_schema ::
  "Provider option \<Rightarrow> 'a ModerationConfig_scheme \<Rightarrow> CodeBasedExtensionForm list option" where
  "dynamic_schema cp d =
     (if type d \<in> set systemTypes then None
      else (case cp of None \<Rightarrow> None | Some p \<Rightarrow> Provider.form_schema p))"

definition missing_dynamic_field ::
  "Provider option \<Rightarrow> 'a ModerationConfig_scheme \<Rightarrow> CodeBasedExtensionForm option" where
  "missing_dynamic_field cp d =
     (case dynamic_schema cp d of
        None \<Rightarrow> None
      | Some fs \<Rightarrow> find (\<lambda>f. \<not> truthy (opt_member (configs d) (variable f))) fs)"

text \<open>A direction (\<open>''inputs_configs''\<close> or \<open>''outputs_configs''\<close>) is enabled without a preset response, and the type is not \<open>api\<close>.\<close>

definition preset_missing :: "string \<Rightarrow> 'a ModerationConfig_scheme \<Rightarrow> bool" where
  "preset_missing dir d =
     (case opt_member (configs d) dir of
        Content c \<Rightarrow>
          ModerationContentConfig.enabled c
          \<and> (preset_response c = None \<or> preset_response c = Some [])
          \<and> type d \<noteq> ''api''
      | _ \<Rightarrow> False)"

text \<open>The message of each rule, present when the rule is violated, in the fixed order.\<close>

definition rule_messages ::
  "translate \<Rightarrow> string \<Rightarrow> Provider option \<Rightarrow> 'a ModerationConfig_scheme \<Rightarrow>
     string option list" where
  "rule_messages t locale cp d =
     [if no_direction_enabled d
      then Some (t ''appDebug.feature.moderation.modal.content.condition'' None) else None,
      if keywords_missing d
      then Some (t ''appDebug.errorMessage.valueOfVarRequired''
                   (Some (if locale = ''en'' then ''keywords'' else zh_keywords)))
      else None,
      if api_extension_missing d
      then Some (t ''appDebug.errorMessage.valueOfVarRequired''
                   (Some (if locale = ''en'' then ''API-based Extension''
                          else zh_api_based_extension)))
      else None,
      map_option
        (\<lambda>f. t ''appDebug.errorMessage.valueOfVarRequired''
               (Some (if locale = ''en'' then en_US (CodeBasedExtensionForm.label f)
                      else zh_Hans (CodeBasedExtensionForm.label f))))
        (missing_dynamic_field cp d),
      if preset_missing ''inputs_configs'' d
      then Some (t ''appDebug.feature.moderation.modal.content.errorMessage'' None) else None,
      if preset_missing ''outputs_configs'' d
      then Some (t ''appDebug.feature.moderation.modal.content.errorMessage'' None) else None]"

fun first_some :: "'a option list \<Rightarrow> 'a option" where
  "first_some [] = None"
| "first_some (None # ms) = first_some ms"
| "first_some (Some m # ms) = Some m"

definition first_violation ::
  "translate \<Rightarrow> string \<Rightarrow> Provider option \<Rightarrow> 'a ModerationConfig_scheme \<Rightarrow> string option" where
  "first_violation t locale cp d = first_some (rule_messages t locale cp d)"

section \<open>Pricing plan card: the price block\<close>

text \<open>
  The members of \<open>Plan\<close> are those the style table of the card lists; \<open>PlanRange\<close> has
  the two ranges the card distinguishes.
\<close>

datatype Plan = sandbox | professional | team | enterprise

datatype PlanRange = monthly | yearly

text \<open>
  A JavaScript number is an IEEE-754 binary64 value: \<open>NaN\<close>, an infinity, or a finite
  value, which is a rational number here. The two zeros are one value (they are equal
  under \<open>===\<close> and are displayed alike). The type also holds rationals that are no
  binary64 value; a number of the program is never one of those.
\<close>

datatype js_number = Finite rat | PosInfinity | NegInfinity | NaN

text \<open>The number of binary digits of a positive integer.\<close>

function bit_length :: "int \<Rightarrow> nat" where
  "bit_length n = (if n \<le> 0 then 0 else Suc (bit_length (n div 2)))"
  by pat_completeness auto
termination
  by (relation "measure nat") auto

declare bit_length.simps [simp del]

text \<open>For a positive rational \<open>x\<close>, the exponent \<open>e\<close> with \<open>2 ^ e \<le> x < 2 ^ (e + 1)\<close>.\<close>

definition floor_log2 :: "rat \<Rightarrow> int" where
  "floor_log2 x =
     (if 1 \<le> x then int (bit_length \<lfloor>x\<rfloor>) - 1
      else - int (bit_length (\<lceil>1 / x\<rceil> - 1)))"

text \<open>Rounding to the nearest integer, a tie going to the even one.\<close>

definition round_half_even :: "rat \<Rightarrow> int" where
  "round_half_even r =
     (let f = \<lfloor>r\<rfloor>; d = r - of_int f
      in if d < 1 / 2 then f else if 1 / 2 < d then f + 1 else if even f then f else f + 1)"

text \<open>
  The binary64 value of an exact result \<open>x\<close> (round to nearest, ties to even): between
  \<open>2 ^ e\<close> and \<open>2 ^ (e + 1)\<close> the values are \<open>2 ^ (e - 52)\<close> apart, the least exponent is
  \<open>- 1022\<close> (below it the values are \<open>2 ^ (- 1074)\<close> apart), and a result that rounds to
  \<open>2 ^ 1024\<close> or beyond is an infinity.
\<close>

definition round_double :: "rat \<Rightarrow> js_number" where
  "round_double x =
     (if x = 0 then Finite 0
      else
        (let e = max (floor_log2 \<bar>x\<bar>) (- 1022);
             q = 2 powi (e - 52);
             y = of_int (round_half_even (x / q)) * q
         in if 2 ^ 1024 \<le> y then PosInfinity
            else if y \<le> - (2 ^ 1024) then NegInfinity
            else Finite y))"

text \<open>The product \<open>x * y\<close> of two numbers.\<close>

fun js_mul :: "js_number \<Rightarrow> js_number \<Rightarrow> js_number" where
  "js_mul (Finite a) (Finite b) = round_double (a * b)"
| "js_mul NaN y = NaN"
| "js_mul x NaN = NaN"
| "js_mul (Finite a) PosInfinity =
     (if a = 0 then NaN else if 0 < a then PosInfinity else NegInfinity)"
| "js_mul (Finite a) NegInfinity =
     (if a = 0 then NaN else if 0 < a then NegInfinity else PosInfinity)"
| "js_mul PosInfinity (Finite b) =
     (if b = 0 then NaN else if 0 < b then PosInfinity else NegInfinity)"
| "js_mul NegInfinity (Finite b) =
     (if b = 0 then NaN else if 0 < b then NegInfinity else PosInfinity)"
| "js_mul PosInfinity PosInfinity = PosInfinity"
| "js_mul PosInfinity NegInfinity = NegInfinity"
| "js_mul NegInfinity PosInfinity = NegInfinity"
| "js_mul NegInfinity NegInfinity = PosInfinity"

text \<open>
  The plan table \<open>ALL_PLANS\<close> (\<open>billing/config\<close>) is not part of the sources and is a
  parameter. Of a plan's entry the price block reads \<open>price\<close> only.
\<close>

record PlanInfo =
  level :: js_number
  price :: js_number

text \<open>
  What the price block shows: a text (\<open>free\<close>, \<open>contactSales\<close>), or an amount after
  \<open>$\<close>, the saving after the \<open>save\<close> text when there is one, and the unit after \<open>/\<close>.
\<close>

datatype price_view =
    PriceText string
  | PriceAmount js_number "(string \<times> js_number) option" string

definition price_block ::
  "(string \<Rightarrow> string) \<Rightarrow> (Plan \<Rightarrow> PlanInfo) \<Rightarrow> Plan \<Rightarrow> PlanRange \<Rightarrow> price_view list" where
  "price_block t ALL_PLANS plan planRange =
     (let isFreePlan = (plan = sandbox);
          isEnterprisePlan = (plan = enterprise);
          planInfo = ALL_PLANS plan;
          isYear = (planRange = yearly)
      in (if isFreePlan then [PriceText (t ''billing.plansCommon.free'')] else [])
         @ (if isEnterprisePlan then [PriceText (t ''billing.plansCommon.contactSales'')] else [])
         @ (if \<not> isFreePlan \<and> \<not> isEnterprisePlan
            then [PriceAmount
                    (if isYear then js_mul (price planInfo) (Finite 10) else price planInfo)
                    (if isYear
                     then Some (t ''billing.plansCommon.save'', js_mul (price planInfo) (Finite 2))
                     else None)
                    (t (''billing.plansCommon.'' @ (if \<not> isYear then ''month'' else ''year'')))]
            else []))"

section \<open>Auxiliary notions for the statements\<close>

text \<open>
  The keys that \<open>formatData\<close> creates in \<open>params\<close>, and the bag it returns for a working
  bag \<open>c\<close> once those keys are known: a key of \<open>params\<close> carries the working value (the
  spread of \<open>params\<close> comes last), the two directions carry theirs or \<open>{ enabled: false }\<close>.
\<close>

definition param_keys :: "Provider option \<Rightarrow> 'a ModerationConfig_scheme \<Rightarrow> string set" where
  "param_keys cp d =
     (if type d = ''keywords'' then {''keywords''} else {})
     \<union> (if type d = ''api'' then {''api_based_extension_id''} else {})
     \<union> (case dynamic_schema cp d of
          None \<Rightarrow> {}
        | Some fs \<Rightarrow> variable ` set fs - {''__proto__''})"

definition formatted :: "string set \<Rightarrow> js_object \<Rightarrow> js_object" where
  "formatted K c =
     (\<lambda>k. if k \<in> K then Some (opt_member (Some c) k)
          else if k = ''inputs_configs'' \<or> k = ''outputs_configs''
          then Some (or_disabled (opt_member (Some c) k))
          else None)"

section \<open>Example configurations\<close>

text \<open>
  A translation function that returns its key, followed by the \<open>key\<close> parameter when
  there is one; a catalog with one code-based extension whose schema asks for
  \<open>api_key\<close> and \<open>region\<close>; and a few working copies.
\<close>

definition demo_t :: translate where
  "demo_t k p = (case p of None \<Rightarrow> k | Some v \<Rightarrow> k @ '': '' @ v)"

definition demo_catalog :: "CodeBasedExtensionItem list option" where
  "demo_catalog =
     Some [\<lparr>CodeBasedExtensionItem.name = ''dyn-provider'',
            CodeBasedExtensionItem.label = \<lparr>en_US = ''Dyn'', zh_Hans = ''Dyn zh''\<rparr>,
            CodeBasedExtensionItem.form_schema =
              Some [\<lparr>variable = ''api_key'', CodeBasedExtensionForm.label = \<lparr>en_US = ''api_key'', zh_Hans = ''api_key zh''\<rparr>\<rparr>,
                    \<lparr>variable = ''region'', CodeBasedExtensionForm.label = \<lparr>en_US = ''region'', zh_Hans = ''region zh''\<rparr>\<rparr>]\<rparr>]"

definition demo_provider :: Provider where
  "demo_provider =
     \<lparr>key = ''dyn-provider'', name = ''Dyn'',
      form_schema =
        Some [\<lparr>variable = ''api_key'', CodeBasedExtensionForm.label = \<lparr>en_US = ''api_key'', zh_Hans = ''api_key zh''\<rparr>\<rparr>,
              \<lparr>variable = ''region'', CodeBasedExtensionForm.label = \<lparr>en_US = ''region'', zh_Hans = ''region zh''\<rparr>\<rparr>]\<rparr>"

definition blocked :: js_value where
  "blocked = Content \<lparr>ModerationContentConfig.enabled = True, preset_response = Some ''blocked''\<rparr>"

definition disabled :: js_value where
  "disabled = Content \<lparr>ModerationContentConfig.enabled = False, preset_response = None\<rparr>"

definition demo_dynamic :: ModerationConfig where
  "demo_dynamic =
     \<lparr>enabled = True, type = ''dyn-provider'',
      configs = Some [''inputs_configs'' \<mapsto> blocked, ''api_key'' \<mapsto> Str ''k'',
                      ''region'' \<mapsto> Str ''eu'', ''keywords'' \<mapsto> Str ''stale'']\<rparr>"

definition demo_dynamic_saved :: ModerationConfig where
  "demo_dynamic_saved =
     \<lparr>enabled = True, type = ''dyn-provider'',
      configs = Some [''inputs_configs'' \<mapsto> blocked, ''outputs_configs'' \<mapsto> disabled,
                      ''api_key'' \<mapsto> Str ''k'', ''region'' \<mapsto> Str ''eu'']\<rparr>"



definition demo_api :: ModerationConfig where
  "demo_api =
     \<lparr>enabled = True, type = ''api'',
      configs = Some [''api_based_extension_id'' \<mapsto> Str ''ext'',
                      ''outputs_configs'' \<mapsto>
                        Content \<lparr>ModerationContentConfig.enabled = True, preset_response = None\<rparr>]\<rparr>"

definition demo_no_preset :: ModerationConfig where
  "demo_no_preset =
     \<lparr>enabled = True, type = ''openai_moderation'',
      configs = Some [''inputs_configs'' \<mapsto>
                        Content \<lparr>ModerationContentConfig.enabled = True, preset_response = None\<rparr>]\<rparr>"


definition demo_unconfigured :: ModerationConfig where
  "demo_unconfigured = \<lparr>enabled = True, type = ''keywords'', configs = None\<rparr>"

text \<open>
  A catalog whose one extension asks for a single field, its variable given; and a working
  copy of that extension with nothing but an enabled direction.
\<close>

definition demo_single_field_catalog :: "string \<Rightarrow> CodeBasedExtensionItem list option" where
  "demo_single_field_catalog v =
     Some [\<lparr>CodeBasedExtensionItem.name = ''dyn-provider'',
            CodeBasedExtensionItem.label = \<lparr>en_US = ''Dyn'', zh_Hans = ''Dyn zh''\<rparr>,
            CodeBasedExtensionItem.form_schema =
              Some [\<lparr>variable = v,
                     CodeBasedExtensionForm.label = \<lparr>en_US = v, zh_Hans = v\<rparr>\<rparr>]\<rparr>]"

definition demo_direction_only :: ModerationConfig where
  "demo_direction_only =
     \<lparr>enabled = True, type = ''dyn-provider'',
      configs = Some [''inputs_configs'' \<mapsto> blocked]\<rparr>"

section \<open>Splitting and joining lines\<close>

lemma js_split_nonempty: "js_split sep s \<noteq> []"
  by (induction s) (auto split: list.splits)

lemma js_split_no_sep: "l \<in> set (js_split sep s) \<Longrightarrow> sep \<notin> set l"
  by (induction s arbitrary: l) (auto split: list.splits if_splits)

lemma js_split_append_sep:
  "sep \<notin> set x \<Longrightarrow> js_split sep (x @ sep # r) = x # js_split sep r"
  by (induction x) (auto split: list.splits)

lemma js_split_no_sep_id: "sep \<notin> set x \<Longrightarrow> js_split sep x = [x]"
  by (induction x) (auto split: list.splits)

lemma js_split_join:
  "xs \<noteq> [] \<Longrightarrow> \<forall>l \<in> set xs. sep \<notin> set l \<Longrightarrow> js_split sep (js_join sep xs) = xs"
  by (induction sep xs rule: js_join.induct) (auto simp: js_split_append_sep js_split_no_sep_id)

lemma keywords_step_inv:
  assumes "\<forall>l \<in> set prev. newline \<notin> set l \<and> length l \<le> 100" and "newline \<notin> set next"
  shows "\<forall>l \<in> set (keywords_step prev next). newline \<notin> set l \<and> length l \<le> 100"
  using assms by (auto simp: keywords_step_def Let_def dest: in_set_takeD)

lemma foldl_keywords_step_inv:
  "\<forall>l \<in> set acc. newline \<notin> set l \<and> length l \<le> 100 \<Longrightarrow>
   \<forall>n \<in> set ls. newline \<notin> set n \<Longrightarrow>
   \<forall>l \<in> set (foldl keywords_step acc ls). newline \<notin> set l \<and> length l \<le> 100"
proof (induction ls arbitrary: acc)
  case Nil
  then show ?case by simp
next
  case (Cons n ls)
  have a: "\<forall>l \<in> set (keywords_step acc n). newline \<notin> set l \<and> length l \<le> 100"
    using Cons.prems by (intro keywords_step_inv) auto
  have b: "\<forall>m \<in> set ls. newline \<notin> set m"
    using Cons.prems(2) by simp
  show ?case using Cons.IH [OF a b] by simp
qed

lemma keywords_step_nonempty: "keywords_step [] next \<noteq> []"
  by (simp add: keywords_step_def Let_def last_elem_def)

lemma keywords_step_keeps: "prev \<noteq> [] \<Longrightarrow> keywords_step prev next \<noteq> []"
  by (simp add: keywords_step_def Let_def)

lemma foldl_keywords_step_keeps: "acc \<noteq> [] \<Longrightarrow> foldl keywords_step acc ls \<noteq> []"
  by (induction ls arbitrary: acc) (simp_all add: keywords_step_keeps)

lemma keywords_arr_nonempty: "keywords_arr v \<noteq> []"
proof -
  obtain l ls where "js_split newline v = l # ls"
    using js_split_nonempty by (cases "js_split newline v") auto
  then show ?thesis
    by (simp add: keywords_arr_def foldl_keywords_step_keeps keywords_step_nonempty)
qed

lemma keywords_arr_inv:
  "\<forall>l \<in> set (keywords_arr v). newline \<notin> set l \<and> length l \<le> 100"
  unfolding keywords_arr_def
  by (rule foldl_keywords_step_inv) (auto dest: js_split_no_sep)

section \<open>What \<open>handleSave\<close> does, rule by rule\<close>

lemma findIndex_ge: "- 1 \<le> findIndex P xs"
  by (induction xs) (auto simp: Let_def)

lemma findIndex_neg_iff: "findIndex P xs < 0 \<longleftrightarrow> (\<forall>x \<in> set xs. \<not> P x)"
proof (induction xs)
  case Nil
  then show ?case by simp
next
  case (Cons x xs)
  have "- 1 \<le> findIndex P xs" by (rule findIndex_ge)
  then show ?case using Cons by (auto simp: Let_def)
qed

lemma not_system_type_iff:
  "findIndex (\<lambda>t. t = ty) systemTypes < 0 \<longleftrightarrow> ty \<notin> set systemTypes"
  by (auto simp: findIndex_neg_iff)

lemma first_missing_find:
  "first_missing cfg fs = find (\<lambda>f. \<not> truthy (opt_member cfg (variable f))) fs"
  by (induction fs) auto

lemma member_Some: "member (Some c) k = Inr (opt_member (Some c) k)"
  by (simp add: member_def opt_member_def js_get_def object_prototype_def)

lemma schema_loop_eq:
  "(if findIndex (\<lambda>t. t = type d) systemTypes < 0
    then (case cp of
            None \<Rightarrow> None
          | Some p \<Rightarrow>
              (case Provider.form_schema p of
                 None \<Rightarrow> None
               | Some fs \<Rightarrow> first_missing (configs d) fs))
    else None) = missing_dynamic_field cp d"
  by (simp add: not_system_type_iff missing_dynamic_field_def dynamic_schema_def
      first_missing_find split: option.splits)

lemma preset_check_eq:
  "bindE (bindE (member (Some c) dir)
            (\<lambda>ic. if opt_enabled ic
                  then bindE (preset_response_empty ic) (\<lambda>e. Inr (e \<and> ty \<noteq> ''api''))
                  else Inr False)) f
   = f (case opt_member (Some c) dir of
          Content cc \<Rightarrow> ModerationContentConfig.enabled cc
            \<and> (preset_response cc = None \<or> preset_response cc = Some []) \<and> ty \<noteq> ''api''
        | _ \<Rightarrow> False)"
  by (cases "opt_member (Some c) dir")
     (auto simp: member_Some bindE_def split: option.splits)

lemma no_direction_None: "configs d = None \<Longrightarrow> no_direction_enabled d"
  by (simp add: no_direction_enabled_def opt_member_def js_get_def object_prototype_def)

lemma formatData_Some: "configs d = Some c \<Longrightarrow> \<exists>out. formatData cp d = Inr out"
  by (simp add: formatData_def Let_def)


lemma bindE_Inr: "bindE (Inr v) f = f v"
  by (simp add: bindE_def)

lemma keywords_check_eq:
  "configs d = Some c \<Longrightarrow>
   (if type d = ''keywords''
    then bindE (member (configs d) ''keywords'') (\<lambda>v. Inr (\<not> truthy v))
    else Inr False) = Inr (keywords_missing d)"
  by (simp add: keywords_missing_def member_Some bindE_def)

lemma api_check_eq:
  "configs d = Some c \<Longrightarrow>
   (if type d = ''api''
    then bindE (member (configs d) ''api_based_extension_id'') (\<lambda>v. Inr (\<not> truthy v))
    else Inr False) = Inr (api_extension_missing d)"
  by (simp add: api_extension_missing_def member_Some bindE_def)

lemma preset_check_eq':
  "configs d = Some c \<Longrightarrow>
   bindE (bindE (member (configs d) dir)
            (\<lambda>ic. if opt_enabled ic
                  then bindE (preset_response_empty ic) (\<lambda>e. Inr (e \<and> type d \<noteq> ''api''))
                  else Inr False)) f
   = f (preset_missing dir d)"
  by (simp add: preset_check_eq preset_missing_def)

lemma first_violation_unfold:
  "first_violation t locale cp d =
     (if no_direction_enabled d
      then Some (t ''appDebug.feature.moderation.modal.content.condition'' None)
      else if keywords_missing d
      then Some (t ''appDebug.errorMessage.valueOfVarRequired''
                   (Some (if locale = ''en'' then ''keywords'' else zh_keywords)))
      else if api_extension_missing d
      then Some (t ''appDebug.errorMessage.valueOfVarRequired''
                   (Some (if locale = ''en'' then ''API-based Extension''
                          else zh_api_based_extension)))
      else (case missing_dynamic_field cp d of
              Some f \<Rightarrow>
                Some (t ''appDebug.errorMessage.valueOfVarRequired''
                  (Some (if locale = ''en'' then en_US (CodeBasedExtensionForm.label f)
                         else zh_Hans (CodeBasedExtensionForm.label f))))
            | None \<Rightarrow>
                if preset_missing ''inputs_configs'' d \<or> preset_missing ''outputs_configs'' d
                then Some (t ''appDebug.feature.moderation.modal.content.errorMessage'' None)
                else None))"
  by (cases "missing_dynamic_field cp d") (simp_all add: first_violation_def rule_messages_def)

lemma handleSave_unfold:
  assumes c: "configs d = Some c" and nd: "\<not> no_direction_enabled d"
  shows "handleSave t locale cbl d =
     (if keywords_missing d
      then Inr (d, [Notify ''error'' (t ''appDebug.errorMessage.valueOfVarRequired''
                   (Some (if locale = ''en'' then ''keywords'' else zh_keywords)))])
      else if api_extension_missing d
      then Inr (d, [Notify ''error'' (t ''appDebug.errorMessage.valueOfVarRequired''
                   (Some (if locale = ''en'' then ''API-based Extension''
                          else zh_api_based_extension)))])
      else (case missing_dynamic_field (currentProvider t locale cbl d) d of
              Some f \<Rightarrow>
                Inr (d, [Notify ''error'' (t ''appDebug.errorMessage.valueOfVarRequired''
                  (Some (if locale = ''en'' then en_US (CodeBasedExtensionForm.label f)
                         else zh_Hans (CodeBasedExtensionForm.label f))))])
            | None \<Rightarrow>
                if preset_missing ''inputs_configs'' d
                then Inr (d, [Notify ''error''
                       (t ''appDebug.feature.moderation.modal.content.errorMessage'' None)])
                else if preset_missing ''outputs_configs'' d
                then Inr (d, [Notify ''error''
                       (t ''appDebug.feature.moderation.modal.content.errorMessage'' None)])
                else bindE (formatData (currentProvider t locale cbl d) d)
                       (\<lambda>out. Inr (d, [OnSave out]))))"
proof -
  have g: "(\<not> opt_enabled (opt_member (configs d) ''inputs_configs'')
      \<and> \<not> opt_enabled (opt_member (configs d) ''outputs_configs'')) = False"
    using nd by (simp add: no_direction_enabled_def)
  show ?thesis
    by (simp only: handleSave_def Let_def g if_False keywords_check_eq [OF c]
        api_check_eq [OF c] bindE_Inr schema_loop_eq preset_check_eq' [OF c])
qed

lemma handleSave_char:
  "handleSave t locale cbl d =
     (case first_violation t locale (currentProvider t locale cbl d) d of
        Some m \<Rightarrow> Inr (d, [Notify ''error'' m])
      | None \<Rightarrow> bindE (formatData (currentProvider t locale cbl d) d)
                  (\<lambda>out. Inr (d, [OnSave out])))"
proof (cases "no_direction_enabled d")
  case True
  then show ?thesis
    by (simp add: handleSave_def first_violation_unfold no_direction_enabled_def Let_def)
next
  case False
  then obtain c where c: "configs d = Some c"
    using no_direction_None by (cases "configs d") auto
  show ?thesis
    unfolding handleSave_unfold [OF c False] first_violation_unfold
    using False by (cases "missing_dynamic_field (currentProvider t locale cbl d) d") simp_all
qed

section \<open>What \<open>formatData\<close> returns\<close>

lemma js_set_empty: "js_set Map.empty k v ''__proto__'' = None"
  by (simp add: js_set_def)

lemma foldl_params:
  "m ''__proto__'' = None \<Longrightarrow>
   foldl (\<lambda>params form. js_set params (variable form) (g (variable form))) m fs
     = m ++ (\<lambda>k. if k \<in> variable ` set fs - {''__proto__''} then Some (g k) else None)"
proof (induction fs arbitrary: m)
  case Nil
  have "(\<lambda>k. None) = Map.empty" by simp
  then show ?case by simp
next
  case (Cons f fs)
  have p: "js_set m (variable f) (g (variable f)) ''__proto__'' = None"
    using Cons.prems by (simp add: js_set_def)
  show ?case
    unfolding foldl_Cons Cons.IH [of "js_set m (variable f) (g (variable f))", OF p]
    using Cons.prems by (auto simp: map_add_def js_set_def fun_eq_iff)
qed

lemma params3_eq:
  "m ''__proto__'' = None \<Longrightarrow>
   (if findIndex (\<lambda>t. t = type d) systemTypes < 0
    then (case cp of
            None \<Rightarrow> m
          | Some p \<Rightarrow>
              (case Provider.form_schema p of
                 None \<Rightarrow> m
               | Some fs \<Rightarrow>
                   foldl (\<lambda>params form. js_set params (variable form) (g (variable form))) m fs))
    else m)
   = m ++ (\<lambda>k. if k \<in> (case dynamic_schema cp d of
                           None \<Rightarrow> {}
                         | Some fs \<Rightarrow> variable ` set fs - {''__proto__''})
                then Some (g k) else None)"
  by (simp add: not_system_type_iff dynamic_schema_def foldl_params split: option.splits)

lemma formatData_formatted:
  assumes c: "configs d = Some c"
  shows "formatData cp d =
     Inr \<lparr>enabled = enabled d, type = type d,
          configs = Some (formatted (param_keys cp d) c)\<rparr>"
proof -
  let ?p2 = "(if type d = ''api''
          then js_set (if type d = ''keywords''
                       then js_set Map.empty ''keywords'' (opt_member (Some c) ''keywords'')
                       else Map.empty)
                 ''api_based_extension_id'' (opt_member (Some c) ''api_based_extension_id'')
          else (if type d = ''keywords''
                then js_set Map.empty ''keywords'' (opt_member (Some c) ''keywords'')
                else Map.empty))"
  have p: "?p2 ''__proto__'' = None"
    by (simp add: js_set_def)
  have "formatted (param_keys cp d) c =
     [''inputs_configs'' \<mapsto> or_disabled (opt_member (Some c) ''inputs_configs''),
      ''outputs_configs'' \<mapsto> or_disabled (opt_member (Some c) ''outputs_configs'')]
     ++ (?p2
         ++ (\<lambda>k. if k \<in> (case dynamic_schema cp d of
                              None \<Rightarrow> {}
                            | Some fs \<Rightarrow> variable ` set fs - {''__proto__''})
                  then Some (opt_member (Some c) k) else None))"
    by (rule ext) (simp add: formatted_def param_keys_def map_add_def js_set_def)
  then show ?thesis
    by (simp only: formatData_def c option.case Let_def params3_eq [where m = ?p2, OF p])
qed

lemma or_disabled_idem: "or_disabled (or_disabled v) = or_disabled v"
  by (simp add: or_disabled_def)

lemma opt_member_formatted:
  "opt_member (Some (formatted K c)) k =
     (if k \<in> K then opt_member (Some c) k
      else if k = ''inputs_configs'' \<or> k = ''outputs_configs''
      then or_disabled (opt_member (Some c) k)
      else if k \<in> set object_prototype then Inherited k else Undefined)"
  by (simp add: opt_member_def js_get_def object_prototype_def formatted_def)

lemma formatted_idem: "formatted K (formatted K c) = formatted K c"
  by (rule ext)
     (simp add: formatted_def [of K "formatted K c"] opt_member_formatted or_disabled_idem,
      simp add: formatted_def)

lemma param_keys_cong:
  "type d' = type d \<Longrightarrow> param_keys cp d' = param_keys cp d"
  by (simp add: param_keys_def dynamic_schema_def)

lemma formatData_idem:
  assumes "formatData cp d = Inr out"
  shows "formatData cp out = Inr out"
proof -
  obtain c where c: "configs d = Some c"
    using assms by (cases "configs d") (simp_all add: formatData_def)
  have out: "out = \<lparr>enabled = enabled d, type = type d,
          configs = Some (formatted (param_keys cp d) c)\<rparr>"
    using assms formatData_formatted [OF c, of cp] by simp
  have k: "param_keys cp out = param_keys cp d"
    by (rule param_keys_cong) (simp add: out)
  have "formatData cp out =
      Inr \<lparr>enabled = enabled out, type = type out,
           configs = Some (formatted (param_keys cp out) (formatted (param_keys cp d) c))\<rparr>"
    by (rule formatData_formatted) (simp add: out)
  also have "\<dots> = Inr out"
    unfolding k formatted_idem by (simp add: out)
  finally show ?thesis .
qed



section \<open>Saving and the first violation\<close>

lemma handleSave_saves:
  assumes "first_violation t locale (currentProvider t locale cbl d) d = None"
  shows "\<exists>c. configs d = Some c \<and>
           handleSave t locale cbl d =
             Inr (d, [OnSave \<lparr>enabled = enabled d, type = type d,
                        configs = Some (formatted (param_keys (currentProvider t locale cbl d) d) c)\<rparr>])"
proof -
  have "\<not> no_direction_enabled d"
    using assms by (auto simp: first_violation_unfold split: if_splits)
  then obtain c where c: "configs d = Some c"
    using no_direction_None by (cases "configs d") auto
  show ?thesis
    using assms c by (simp add: handleSave_char formatData_formatted [OF c] bindE_Inr)
qed

lemma handleSave_OnSave_iff:
  "handleSave t locale cbl d = Inr (d', [OnSave out]) \<longleftrightarrow>
     first_violation t locale (currentProvider t locale cbl d) d = None
     \<and> d' = d \<and> formatData (currentProvider t locale cbl d) d = Inr out"
proof (cases "first_violation t locale (currentProvider t locale cbl d) d")
  case None
  from handleSave_saves [OF None] obtain c where c: "configs d = Some c" by blast
  show ?thesis using None by (auto simp: handleSave_char formatData_formatted [OF c] bindE_Inr)
next
  case (Some m)
  then show ?thesis by (simp add: handleSave_char)
qed




section \<open>Facts about the example configurations\<close>

lemmas rule_defs = no_direction_enabled_def keywords_missing_def api_extension_missing_def
  missing_dynamic_field_def dynamic_schema_def preset_missing_def opt_member_def js_get_def object_prototype_def systemTypes_def

lemma demo_currentProvider:
  "type d = ''dyn-provider'' \<Longrightarrow> currentProvider demo_t ''en'' demo_catalog d = Some demo_provider"
  by (simp add: currentProvider_def providers_def demo_catalog_def demo_provider_def)

lemma demo_dynamic_provider:
  "currentProvider demo_t ''en'' demo_catalog demo_dynamic = Some demo_provider"
  by (rule demo_currentProvider) (simp add: demo_dynamic_def)

lemma demo_dynamic_format:
  "formatData (Some demo_provider) demo_dynamic = Inr demo_dynamic_saved"
  by (simp add: formatData_def demo_provider_def demo_dynamic_def demo_dynamic_saved_def blocked_def disabled_def
      Let_def opt_member_def js_get_def js_set_def object_prototype_def systemTypes_def
      or_disabled_def)

lemma demo_dynamic_save:
  "handleSave demo_t ''en'' demo_catalog demo_dynamic
     = Inr (demo_dynamic, [OnSave demo_dynamic_saved])"
proof -
  have "first_violation demo_t ''en'' (Some demo_provider) demo_dynamic = None"
    by (simp add: first_violation_unfold rule_defs demo_provider_def demo_dynamic_def blocked_def)
  then show ?thesis
    by (simp add: handleSave_char demo_dynamic_provider demo_dynamic_format bindE_Inr)
qed


text \<open>
  A field whose variable names a member of \<open>Object.prototype\<close>: the read in the
  validation loop finds the inherited function, so nothing is reported and the save goes
  through, the function being stored under the variable.
\<close>

lemma demo_single_field_provider:
  "currentProvider demo_t ''en'' (demo_single_field_catalog v) demo_direction_only =
     Some \<lparr>key = ''dyn-provider'', name = ''Dyn'',
           form_schema = Some [\<lparr>variable = v,
                     CodeBasedExtensionForm.label = \<lparr>en_US = v, zh_Hans = v\<rparr>\<rparr>]\<rparr>"
  by (simp add: currentProvider_def providers_def demo_single_field_catalog_def
      demo_direction_only_def)

lemma handleSave_inherited_member:
  "handleSave demo_t ''en'' (demo_single_field_catalog ''toString'') demo_direction_only =
     Inr (demo_direction_only,
          [OnSave \<lparr>enabled = True, type = ''dyn-provider'',
                   configs = Some [''inputs_configs'' \<mapsto> blocked,
                                   ''outputs_configs'' \<mapsto> disabled,
                                   ''toString'' \<mapsto> Inherited ''toString'']\<rparr>])"
proof -
  let ?cp = "currentProvider demo_t ''en'' (demo_single_field_catalog ''toString'')
               demo_direction_only"
  have "first_violation demo_t ''en'' ?cp demo_direction_only = None"
    unfolding demo_single_field_provider
    by (simp add: first_violation_unfold rule_defs demo_direction_only_def blocked_def)
  moreover have "formatData ?cp demo_direction_only =
      Inr \<lparr>enabled = True, type = ''dyn-provider'',
           configs = Some [''inputs_configs'' \<mapsto> blocked,
                           ''outputs_configs'' \<mapsto> disabled,
                           ''toString'' \<mapsto> Inherited ''toString'']\<rparr>"
    unfolding demo_single_field_provider
    by (simp add: formatData_def demo_direction_only_def blocked_def disabled_def Let_def
        opt_member_def js_get_def js_set_def object_prototype_def systemTypes_def
        or_disabled_def)
  ultimately show ?thesis
    by (simp add: handleSave_char bindE_Inr)
qed

section \<open>The keywords handler\<close>

text \<open>
  C1. Whatever string reaches \<open>handleDataKeywordsChange\<close>, the value it stores under
  \<open>configs.keywords\<close> is a string that, split at the newlines, has at most 100 lines,
  and each non-empty line of it has at most 100 characters.
\<close>

theorem handleDataKeywordsChange_bounds:
  "\<exists>c s. configs (handleDataKeywordsChange localeData v) = Some c \<and>
      c ''keywords'' = Some (Str s) \<and>
      length (js_split newline s) \<le> 100 \<and>
      (\<forall>l \<in> set (js_split newline s). l \<noteq> [] \<longrightarrow> length l \<le> 100)"
proof -
  let ?xs = "take 100 (keywords_arr v)"
  have ne: "?xs \<noteq> []" using keywords_arr_nonempty by simp
  have inv: "\<forall>l \<in> set ?xs. newline \<notin> set l \<and> length l \<le> 100"
    using keywords_arr_inv by (auto dest: in_set_takeD)
  have "js_split newline (js_join newline ?xs) = ?xs"
    using ne inv by (intro js_split_join) auto
  then show ?thesis using inv by (simp add: handleDataKeywordsChange_def)
qed

theorem handleDataKeywordsChange_bounds_witness:
  "configs (handleDataKeywordsChange
      \<lparr>enabled = True, type = ''keywords'', configs = None\<rparr> ''ab\<newline>\<newline>\<newline>cd'')
     = Some [''keywords'' \<mapsto> Str ''ab\<newline>\<newline>cd'']
   \<and> js_split newline ''ab\<newline>\<newline>cd'' = [''ab'', [], ''cd'']
   \<and> (\<exists>c s. configs (handleDataKeywordsChange
          \<lparr>enabled = True, type = ''keywords'', configs = None\<rparr> ''ab\<newline>\<newline>\<newline>cd'') = Some c \<and>
        c ''keywords'' = Some (Str s) \<and>
        length (js_split newline s) \<le> 100 \<and>
        (\<forall>l \<in> set (js_split newline s). l \<noteq> [] \<longrightarrow> length l \<le> 100))"
  using handleDataKeywordsChange_bounds
    [of "\<lparr>enabled = True, type = ''keywords'', configs = None\<rparr>" "''ab\<newline>\<newline>\<newline>cd''"]
  by (simp add: handleDataKeywordsChange_def keywords_arr_def keywords_step_def
      newline_def last_elem_def spread_def)

text \<open>
  C2, as the spec words it: on the input \<open>a\<newline>b\<newline>\<close> the handler would store \<open>a\<newline>b\<close>
  and the line counter would show 2. The stored string differs.
\<close>

theorem handleDataKeywordsChange_trailing_counterexample:
  "\<not> (opt_member (configs (handleDataKeywordsChange
          \<lparr>enabled = False, type = ''keywords'', configs = None\<rparr> ''a\<newline>b\<newline>'')) ''keywords''
        = Str ''a\<newline>b''
      \<and> keywords_line_count (handleDataKeywordsChange
          \<lparr>enabled = False, type = ''keywords'', configs = None\<rparr> ''a\<newline>b\<newline>'') = Inr 2)"
  by (simp add: handleDataKeywordsChange_def keywords_arr_def keywords_step_def
      newline_def last_elem_def spread_def opt_member_def js_get_def object_prototype_def)

text \<open>
  C2, amended. On the input \<open>a\<newline>b\<newline>\<close>, from any prior state (so also from one without
  keywords), the handler stores \<open>a\<newline>b\<newline>\<close>: the empty line after \<open>b\<close> is kept. The line
  counter, which counts the non-empty lines of the stored value, shows 2.
\<close>

theorem handleDataKeywordsChange_trailing_kept:
  "opt_member (configs (handleDataKeywordsChange localeData ''a\<newline>b\<newline>'')) ''keywords''
     = Str ''a\<newline>b\<newline>''
   \<and> keywords_line_count (handleDataKeywordsChange localeData ''a\<newline>b\<newline>'') = Inr 2"
  by (simp add: handleDataKeywordsChange_def keywords_arr_def keywords_step_def
      newline_def last_elem_def opt_member_def js_get_def object_prototype_def keywords_line_count_def)

section \<open>The provider type handler\<close>

text \<open>
  C8. Whatever the prior working copy and the type given, \<open>handleDataTypeChange\<close> leaves
  \<open>configs\<close> undefined, so every field entered before is gone, \<open>inputs_configs\<close> and
  \<open>outputs_configs\<close> included; \<open>enabled\<close> (and any further top-level field) is as before
  and \<open>type\<close> is the argument.
\<close>

theorem handleDataTypeChange_resets_configs:
  "configs (handleDataTypeChange localeData t) = None
   \<and> opt_member (configs (handleDataTypeChange localeData t)) ''inputs_configs'' = Undefined
   \<and> opt_member (configs (handleDataTypeChange localeData t)) ''outputs_configs'' = Undefined
   \<and> enabled (handleDataTypeChange localeData t) = enabled localeData
   \<and> ModerationConfig.more (handleDataTypeChange localeData t) = ModerationConfig.more localeData
   \<and> type (handleDataTypeChange localeData t) = t"
  by (simp add: handleDataTypeChange_def opt_member_def js_get_def object_prototype_def)

section \<open>Rounding of whole numbers\<close>

lemma bit_length_bounds: "0 < n \<Longrightarrow> 2 ^ (bit_length n - 1) \<le> n \<and> n < 2 ^ bit_length n"
proof (induction n rule: bit_length.induct)
  case (1 n)
  show ?case
  proof (cases "n div 2 \<le> 0")
    case True
    with 1(2) have "n = 1" by presburger
    then show ?thesis by (simp add: bit_length.simps)
  next
    case False
    with 1 have ih: "2 ^ (bit_length (n div 2) - 1) \<le> n div 2" "n div 2 < 2 ^ bit_length (n div 2)"
      by auto
    have pos: "0 < bit_length (n div 2)" using False by (simp add: bit_length.simps [of "n div 2"])
    have bl: "bit_length n = Suc (bit_length (n div 2))"
      using 1(2) by (simp add: bit_length.simps [of n])
    have "(2::int) ^ (bit_length n - 1) = 2 * 2 ^ (bit_length (n div 2) - 1)"
      using pos by (cases "bit_length (n div 2)") (simp_all add: bl)
    also have "\<dots> \<le> 2 * (n div 2)" using ih(1) by simp
    also have "\<dots> \<le> n" by presburger
    finally have a: "2 ^ (bit_length n - 1) \<le> n" .
    have "n < 2 * (n div 2) + 2" by presburger
    also have "\<dots> \<le> 2 * 2 ^ bit_length (n div 2)" using ih(2) by simp
    finally have b: "n < 2 ^ bit_length n" by (simp add: bl)
    from a b show ?thesis ..
  qed
qed

lemma bit_length_pos: "0 < n \<Longrightarrow> 0 < bit_length n"
  by (simp add: bit_length.simps [of n])

lemma round_half_even_of_int: "round_half_even (of_int z) = z"
  by (simp add: round_half_even_def)

lemma floor_log2_of_int:
  "1 \<le> n \<Longrightarrow> floor_log2 (of_int n) = int (bit_length n) - 1"
  by (simp add: floor_log2_def)

lemma round_double_exact:
  assumes q: "q = 2 powi k" and z: "x = of_int z * q" and x: "x \<noteq> 0"
    and e: "max (floor_log2 \<bar>x\<bar>) (- 1022) - 52 = k" and b: "\<bar>x\<bar> < 2 ^ 1024"
  shows "round_double x = Finite x"
proof -
  have q0: "q \<noteq> 0" by (simp add: q)
  have "x / q = of_int z" using z q0 by simp
  then have "of_int (round_half_even (x / q)) * q = x"
    by (simp add: round_half_even_of_int z)
  moreover have "\<not> 2 ^ 1024 \<le> x" "\<not> x \<le> - (2 ^ 1024)" using b by auto
  ultimately show ?thesis
    using x by (simp add: round_double_def Let_def e q [symmetric])
qed

lemma round_double_int:
  assumes "\<bar>n\<bar> \<le> 2 ^ 53"
  shows "round_double (of_int n) = Finite (of_int n)"
proof (cases "n = 0")
  case True
  then show ?thesis by (simp add: round_double_def)
next
  case False
  define m where "m = \<bar>n\<bar>"
  define b where "b = bit_length m"
  have m: "0 < m" "m \<le> 2 ^ 53"
    using False assms by (simp_all add: m_def)
  from bit_length_bounds [OF m(1)] have lo: "2 ^ (b - 1) \<le> m" and hi: "m < 2 ^ b"
    by (simp_all add: b_def)
  have bpos: "0 < b" using bit_length_pos [OF m(1)] by (simp add: b_def)
  have p: "(2::int) ^ (b - 1) \<le> 2 ^ 53" using lo m(2) by (rule order_trans)
  have b53: "b - 1 \<le> 53" by (rule power_le_imp_le_exp [OF _ p]) simp
  have fl: "floor_log2 \<bar>rat_of_int n\<bar> = int b - 1"
  proof -
    have "\<bar>rat_of_int n\<bar> = of_int \<bar>n\<bar>" by simp
    moreover have "1 \<le> \<bar>n\<bar>" using False by simp
    ultimately show ?thesis
      using floor_log2_of_int [of "\<bar>n\<bar>"] by (simp add: b_def m_def)
  qed
  have mx: "max (floor_log2 \<bar>rat_of_int n\<bar>) (- 1022) - 52 = int b - 53"
    using fl bpos by simp
  have bound: "\<bar>rat_of_int n\<bar> < 2 ^ 1024"
  proof -
    have "\<bar>rat_of_int n\<bar> = of_int \<bar>n\<bar>" by simp
    also have "\<dots> \<le> of_int (2 ^ 53)" using assms by (simp only: of_int_le_iff)
    also have "\<dots> < (2::rat) ^ 1024" by simp
    finally show ?thesis .
  qed
  have nz: "rat_of_int n \<noteq> 0" using False by simp
  have "\<exists>z. rat_of_int n = of_int z * 2 powi (int b - 53)"
  proof (cases "b \<le> 53")
    case True
    have "(2::rat) powi (int b - 53) = inverse (2 ^ (53 - b))"
      using True by (simp add: power_int_def nat_diff_distrib' field_simps)
    then have "rat_of_int n = of_int (n * 2 ^ (53 - b)) * 2 powi (int b - 53)"
      by simp
    then show ?thesis ..
  next
    case False
    with b53 have b54: "b = 54" by simp
    then have "m = 2 ^ 53" using lo m(2) by simp
    then have "\<bar>n\<bar> = 2 ^ 53" by (simp add: m_def)
    then have "even \<bar>n\<bar>" by simp
    then have "even n" by simp
    then have "n = 2 * (n div 2)" by presburger
    then have "rat_of_int n = of_int (n div 2) * 2" 
      by (metis mult.commute of_int_mult of_int_numeral)
    then show ?thesis by (auto simp: b54)
  qed
  then obtain z where z: "rat_of_int n = of_int z * 2 powi (int b - 53)" ..
  show ?thesis
    by (rule round_double_exact [OF refl z nz mx bound])
qed

lemma bit_length_example: "bit_length 90071992547409910 = 57"
  by (simp add: bit_length.simps)

lemma floor_log2_example: "floor_log2 90071992547409910 = 56"
  by (simp add: floor_log2_def bit_length_example)

lemma round_half_even_example:
  "round_half_even (90071992547409910 / 16) = 5629499534213119"
proof -
  have f: "\<lfloor>(90071992547409910::rat) / 16\<rfloor> = 5629499534213119"
    by (rule floor_unique) simp_all
  show ?thesis unfolding round_half_even_def Let_def f by simp
qed

lemma round_double_example: "round_double 90071992547409910 = Finite 90071992547409904"
proof -
  have q: "(2::rat) powi (max (floor_log2 \<bar>90071992547409910\<bar>) (- 1022) - 52) = 16"
    by (simp add: floor_log2_example)
  show ?thesis
    unfolding round_double_def Let_def q round_half_even_example by simp
qed

section \<open>The price block of the plan card\<close>

text \<open>
  C10, as stated: for every plan other than sandbox and enterprise the yearly amount
  would be exactly 10 times the monthly price. The amount is the product of two
  JavaScript numbers: for the monthly price \<open>2 ^ 53 - 1\<close> it is \<open>90071992547409904\<close>, and
  10 times the price is \<open>90071992547409910\<close>.
\<close>

theorem price_block_rounding_counterexample:
  "price_block (\<lambda>k. k) (\<lambda>p. \<lparr>level = Finite 1, price = Finite 9007199254740991\<rparr>)
       professional yearly =
     [PriceAmount (Finite 90071992547409904)
        (Some (''billing.plansCommon.save'', js_mul (Finite 9007199254740991) (Finite 2)))
        ''billing.plansCommon.year'']
   \<and> Finite 90071992547409904 \<noteq> Finite (10 * 9007199254740991)"
  by (simp add: price_block_def Let_def round_double_example)

text \<open>
  C10, amended. For a plan that is neither sandbox nor enterprise, the price block shows
  one amount. With the monthly range it is the monthly price itself, with no saving. With
  the yearly range, when the monthly price is a whole number of absolute value at most
  \<open>900719925474099\<close> (so that 10 times it does not exceed \<open>2 ^ 53\<close>), it is exactly 10
  times the monthly price, together with a saving of exactly 2 times the monthly price.
\<close>

theorem price_block_paid_plan:
  assumes "plan \<noteq> sandbox" and "plan \<noteq> enterprise"
  shows "price_block t ALL_PLANS plan monthly =
           [PriceAmount (price (ALL_PLANS plan)) None (t ''billing.plansCommon.month'')]
         \<and> (\<forall>p. price (ALL_PLANS plan) = Finite (of_int p) \<longrightarrow> \<bar>p\<bar> \<le> 900719925474099 \<longrightarrow>
              price_block t ALL_PLANS plan yearly =
                [PriceAmount (Finite (of_int (10 * p)))
                   (Some (t ''billing.plansCommon.save'', Finite (of_int (2 * p))))
                   (t ''billing.plansCommon.year'')])"
proof (intro conjI allI impI)
  show "price_block t ALL_PLANS plan monthly =
      [PriceAmount (price (ALL_PLANS plan)) None (t ''billing.plansCommon.month'')]"
    using assms by (simp add: price_block_def Let_def)
next
  fix p :: int
  assume p: "price (ALL_PLANS plan) = Finite (of_int p)" and b: "\<bar>p\<bar> \<le> 900719925474099"
  have t10: "\<bar>p * 10\<bar> \<le> 2 ^ 53" and t2: "\<bar>p * 2\<bar> \<le> 2 ^ 53"
    using b by simp_all
  have "round_double (of_int (p * 10)) = Finite (of_int (p * 10))"
    and "round_double (of_int (p * 2)) = Finite (of_int (p * 2))"
    by (rule round_double_int [OF t10], rule round_double_int [OF t2])
  then have "js_mul (Finite (of_int p)) (Finite 10) = Finite (of_int (10 * p))"
    and "js_mul (Finite (of_int p)) (Finite 2) = Finite (of_int (2 * p))"
    by (simp_all add: mult.commute)
  then show "price_block t ALL_PLANS plan yearly =
      [PriceAmount (Finite (of_int (10 * p)))
         (Some (t ''billing.plansCommon.save'', Finite (of_int (2 * p))))
         (t ''billing.plansCommon.year'')]"
    using assms p by (simp add: price_block_def Let_def)
qed

theorem price_block_paid_plan_witness:
  "professional \<noteq> sandbox \<and> professional \<noteq> enterprise
   \<and> price_block (\<lambda>k. k) (\<lambda>p. \<lparr>level = Finite 1, price = Finite 59\<rparr>) professional monthly =
       [PriceAmount (Finite 59) None ''billing.plansCommon.month'']
   \<and> price_block (\<lambda>k. k) (\<lambda>p. \<lparr>level = Finite 1, price = Finite 59\<rparr>) professional yearly =
       [PriceAmount (Finite 590) (Some (''billing.plansCommon.save'', Finite 118))
          ''billing.plansCommon.year'']"
proof -
  have a: "professional \<noteq> sandbox" "professional \<noteq> enterprise" by simp_all
  have p: "price ((\<lambda>p. \<lparr>level = Finite 1, price = Finite 59\<rparr>) professional)
             = Finite (of_int 59)"
    by simp
  have b: "\<bar>59::int\<bar> \<le> 900719925474099" by simp
  note r = price_block_paid_plan
    [OF a, of "\<lambda>k. k" "\<lambda>p. \<lparr>level = Finite 1, price = Finite 59\<rparr>"]
  from r [THEN conjunct2, rule_format, OF p b] r [THEN conjunct1] show ?thesis
    by simp
qed

section \<open>The output of a save\<close>




text \<open>
  C5. For a working copy that passes validation, so that \<open>handleSave\<close> passes the result
  \<open>out\<close> of \<open>formatData\<close> to the save callback: \<open>out\<close> has the same current provider, and
  \<open>formatData\<close> applied to \<open>out\<close> returns \<open>out\<close> again.
\<close>

theorem formatData_idempotent_on_save:
  assumes "handleSave t locale cbl d = Inr (d', [OnSave out])"
  shows "formatData (currentProvider t locale cbl d) d = Inr out
         \<and> currentProvider t locale cbl out = currentProvider t locale cbl d
         \<and> formatData (currentProvider t locale cbl out) out = Inr out"
proof -
  have f: "formatData (currentProvider t locale cbl d) d = Inr out"
    using assms by (simp add: handleSave_OnSave_iff)
  then obtain c where c: "configs d = Some c"
    by (cases "configs d") (simp_all add: formatData_def)
  have "type out = type d"
    using f formatData_formatted [OF c, of "currentProvider t locale cbl d"] by auto
  then have p: "currentProvider t locale cbl out = currentProvider t locale cbl d"
    by (simp add: currentProvider_def)
  show ?thesis using f p formatData_idem [OF f] by simp
qed

theorem formatData_idempotent_on_save_witness:
  "handleSave demo_t ''en'' demo_catalog demo_dynamic
     = Inr (demo_dynamic, [OnSave demo_dynamic_saved])
   \<and> formatData (Some demo_provider) demo_dynamic = Inr demo_dynamic_saved
   \<and> formatData (Some demo_provider) demo_dynamic_saved = Inr demo_dynamic_saved"
proof -
  have a: "currentProvider demo_t ''en'' demo_catalog demo_dynamic = Some demo_provider"
    by (rule demo_currentProvider) (simp add: demo_dynamic_def)
  have b: "currentProvider demo_t ''en'' demo_catalog demo_dynamic_saved = Some demo_provider"
    by (rule demo_currentProvider) (simp add: demo_dynamic_saved_def)
  show ?thesis using formatData_idempotent_on_save [OF demo_dynamic_save] demo_dynamic_save unfolding a b by simp
qed

section \<open>Validation failures\<close>






text \<open>
  C7. For a working copy with a direction enabled that passes the rules on keywords,
  extension id and schema fields: if \<open>inputs_configs\<close> or \<open>outputs_configs\<close> is enabled, its
  preset response is missing or empty, and the type is not \<open>api\<close>, then \<open>handleSave\<close>
  raises the preset-response toast (the same message for either direction) and does not
  save; when the type is \<open>api\<close>, it saves, whatever the preset responses.
\<close>

theorem handleSave_preset_response:
  assumes "\<not> no_direction_enabled d"
    and "\<not> keywords_missing d"
    and "\<not> api_extension_missing d"
    and "missing_dynamic_field (currentProvider t locale cbl d) d = None"
  shows "(\<forall>dir cc. (dir = ''inputs_configs'' \<or> dir = ''outputs_configs'') \<longrightarrow>
            opt_member (configs d) dir = Content cc \<longrightarrow>
            ModerationContentConfig.enabled cc \<longrightarrow>
            (preset_response cc = None \<or> preset_response cc = Some []) \<longrightarrow>
            type d \<noteq> ''api'' \<longrightarrow>
            handleSave t locale cbl d =
              Inr (d, [Notify ''error''
                         (t ''appDebug.feature.moderation.modal.content.errorMessage'' None)]))
         \<and> (type d = ''api'' \<longrightarrow> (\<exists>out. handleSave t locale cbl d = Inr (d, [OnSave out])))"
proof (intro conjI allI impI)
  fix dir cc
  assume "dir = ''inputs_configs'' \<or> dir = ''outputs_configs''"
    and "opt_member (configs d) dir = Content cc"
    and "ModerationContentConfig.enabled cc"
    and "preset_response cc = None \<or> preset_response cc = Some []"
    and "type d \<noteq> ''api''"
  then have "preset_missing ''inputs_configs'' d \<or> preset_missing ''outputs_configs'' d"
    by (auto simp: preset_missing_def)
  then show "handleSave t locale cbl d =
      Inr (d, [Notify ''error'' (t ''appDebug.feature.moderation.modal.content.errorMessage'' None)])"
    using assms by (simp add: handleSave_char first_violation_unfold)
next
  assume "type d = ''api''"
  then have "\<not> preset_missing ''inputs_configs'' d" "\<not> preset_missing ''outputs_configs'' d"
    by (auto simp: preset_missing_def split: js_value.splits)
  then have "first_violation t locale (currentProvider t locale cbl d) d = None"
    using assms by (simp add: first_violation_unfold)
  from handleSave_saves [OF this]
  show "\<exists>out. handleSave t locale cbl d = Inr (d, [OnSave out])" by blast
qed

theorem handleSave_preset_response_witness:
  "handleSave demo_t ''en'' None demo_no_preset
     = Inr (demo_no_preset,
            [Notify ''error'' ''appDebug.feature.moderation.modal.content.errorMessage''])
   \<and> opt_member (configs demo_api) ''outputs_configs''
       = Content \<lparr>ModerationContentConfig.enabled = True, preset_response = None\<rparr>
   \<and> (\<exists>out. handleSave demo_t ''en'' None demo_api = Inr (demo_api, [OnSave out]))"
proof -
  have a: "\<not> no_direction_enabled demo_no_preset" "\<not> keywords_missing demo_no_preset"
    "\<not> api_extension_missing demo_no_preset"
    "missing_dynamic_field (currentProvider demo_t ''en'' None demo_no_preset) demo_no_preset = None"
    by (simp_all add: rule_defs demo_no_preset_def demo_api_def)
  have b: "\<not> no_direction_enabled demo_api" "\<not> keywords_missing demo_api"
    "\<not> api_extension_missing demo_api"
    "missing_dynamic_field (currentProvider demo_t ''en'' None demo_api) demo_api = None"
    by (simp_all add: rule_defs demo_no_preset_def demo_api_def)
  have c: "opt_member (configs demo_no_preset) ''inputs_configs''
      = Content \<lparr>ModerationContentConfig.enabled = True, preset_response = None\<rparr>"
    "type demo_no_preset \<noteq> ''api''" "type demo_api = ''api''"
    "opt_member (configs demo_api) ''outputs_configs''
       = Content \<lparr>ModerationContentConfig.enabled = True, preset_response = None\<rparr>"
    by (simp_all add: opt_member_def js_get_def object_prototype_def demo_no_preset_def demo_api_def)
  from handleSave_preset_response [OF a, THEN conjunct1, rule_format, OF _ c(1) _ _ c(2)]
  have "handleSave demo_t ''en'' None demo_no_preset
     = Inr (demo_no_preset,
            [Notify ''error'' (demo_t ''appDebug.feature.moderation.modal.content.errorMessage'' None)])"
    by simp
  moreover from handleSave_preset_response [OF b, THEN conjunct2, rule_format, OF c(3)]
  have "\<exists>out. handleSave demo_t ''en'' None demo_api = Inr (demo_api, [OnSave out])" .
  ultimately show ?thesis using c(4) by (simp add: demo_t_def)
qed

section \<open>No fault at the save interface\<close>

text \<open>
  C9. \<open>handleSave\<close> never throws. Whenever it reaches the save callback, \<open>configs\<close> of the
  working copy is defined and \<open>formatData\<close> has returned normally; and a working copy
  with \<open>configs\<close> undefined is refused by the first guard.
\<close>

theorem handleSave_never_faults:
  "(\<forall>e. handleSave t locale cbl d \<noteq> Inl e)
   \<and> (\<forall>d' out. handleSave t locale cbl d = Inr (d', [OnSave out]) \<longrightarrow>
        configs d \<noteq> None \<and> formatData (currentProvider t locale cbl d) d = Inr out)
   \<and> (configs d = None \<longrightarrow>
        handleSave t locale cbl d =
          Inr (d, [Notify ''error'' (t ''appDebug.feature.moderation.modal.content.condition'' None)]))"
proof (intro conjI allI impI)
  fix e
  show "handleSave t locale cbl d \<noteq> Inl e"
  proof (cases "first_violation t locale (currentProvider t locale cbl d) d")
    case None
    from handleSave_saves [OF None] show ?thesis by auto
  next
    case (Some m)
    then show ?thesis by (simp add: handleSave_char)
  qed
next
  fix d' out
  assume s: "handleSave t locale cbl d = Inr (d', [OnSave out])"
  then have n: "first_violation t locale (currentProvider t locale cbl d) d = None"
    by (simp add: handleSave_OnSave_iff)
  from handleSave_saves [OF n] show "configs d \<noteq> None" by auto
  from s show "formatData (currentProvider t locale cbl d) d = Inr out"
    by (simp add: handleSave_OnSave_iff)
next
  assume "configs d = None"
  then have "no_direction_enabled d" by (rule no_direction_None)
  then show "handleSave t locale cbl d =
      Inr (d, [Notify ''error'' (t ''appDebug.feature.moderation.modal.content.condition'' None)])"
    by (simp add: handleSave_char first_violation_unfold)
qed

theorem handleSave_never_faults_witness:
  "handleSave demo_t ''en'' None demo_unconfigured
     = Inr (demo_unconfigured,
            [Notify ''error'' ''appDebug.feature.moderation.modal.content.condition''])
   \<and> handleSave demo_t ''en'' None demo_unconfigured \<noteq> Inl TypeError
   \<and> handleSave demo_t ''en'' demo_catalog demo_dynamic
       = Inr (demo_dynamic, [OnSave demo_dynamic_saved])
   \<and> configs demo_dynamic \<noteq> None"
proof -
  have n: "configs demo_unconfigured = None" by (simp add: demo_unconfigured_def)
  note a = handleSave_never_faults [of demo_t "''en''" None demo_unconfigured]
  note b = handleSave_never_faults [of demo_t "''en''" demo_catalog demo_dynamic]
  from a have "handleSave demo_t ''en'' None demo_unconfigured \<noteq> Inl TypeError" by blast
  moreover from a n have "handleSave demo_t ''en'' None demo_unconfigured
     = Inr (demo_unconfigured,
            [Notify ''error'' (demo_t ''appDebug.feature.moderation.modal.content.condition'' None)])"
    by blast
  moreover from b demo_dynamic_save have "configs demo_dynamic \<noteq> None" by blast
  ultimately show ?thesis using demo_dynamic_save by (simp add: demo_t_def)
qed

end
